theory Spec2Isabelle
  imports Complex_Main
begin

unbundle bit_operations_syntax

section \<open>Scalars, vectors and matrices\<close>

text \<open>
  The source is \<^verbatim>\<open>include/taser/trajectories/uniform_r3_spline_trajectory.h\<close>.
  Its scalar type \<^verbatim>\<open>T\<close> (a \<^verbatim>\<open>double\<close>, or an automatic-differentiation
  number) is embedded as \<^typ>\<open>real\<close>: rounding is not modelled. The fixed-size Eigen
  types are datatypes with one field per coefficient; a \<open>Matrix4\<close> is given by its rows.
\<close>

datatype Vector3 = Vector3 real real real

datatype Vector4 = Vector4 real real real real

datatype Matrix4 = Matrix4 Vector4 Vector4 Vector4 Vector4

datatype Quaternion = Quaternion real real real real

text \<open>\<^verbatim>\<open>v.setZero()\<close>, \<^verbatim>\<open>q.setIdentity()\<close> (coefficients w, x, y, z), \<^verbatim>\<open>w * v\<close> and
  \<^verbatim>\<open>a += v\<close>.\<close>

definition setZero :: Vector3 where
  "setZero = Vector3 0 0 0"

definition setIdentity :: Quaternion where
  "setIdentity = Quaternion 1 0 0 0"

fun scale3 :: "real \<Rightarrow> Vector3 \<Rightarrow> Vector3" where
  "scale3 w (Vector3 x y z) = Vector3 (w * x) (w * y) (w * z)"

fun add3 :: "Vector3 \<Rightarrow> Vector3 \<Rightarrow> Vector3" where
  "add3 (Vector3 a b c) (Vector3 x y z) = Vector3 (a + x) (b + y) (c + z)"

fun scale4 :: "real \<Rightarrow> Vector4 \<Rightarrow> Vector4" where
  "scale4 w (Vector4 a b c d) = Vector4 (w * a) (w * b) (w * c) (w * d)"

text \<open>\<^verbatim>\<open>B(k)\<close>, the coefficient of a \<open>Vector4\<close>; the loop of \<open>Evaluate\<close> reads it at
  \<open>k = i - i0\<close>, which is 0, 1, 2 or 3.\<close>

fun coeff :: "Vector4 \<Rightarrow> int \<Rightarrow> real" where
  "coeff (Vector4 a b c d) k =
     (if k = 0 then a else if k = 1 then b else if k = 2 then c else d)"

text \<open>\<^verbatim>\<open>v(j)\<close>, the coefficient of a \<open>Vector3\<close>, for \<open>j\<close> = 0, 1 or 2.\<close>

fun coeff3 :: "Vector3 \<Rightarrow> int \<Rightarrow> real" where
  "coeff3 (Vector3 x y z) j = (if j = 0 then x else if j = 1 then y else z)"

text \<open>\<^verbatim>\<open>U.transpose() * M\<close>: the row vector \<open>U\<close> times the matrix, column by column.\<close>

fun row_times :: "Vector4 \<Rightarrow> Matrix4 \<Rightarrow> Vector4" where
  "row_times (Vector4 a b c d)
     (Matrix4 (Vector4 m00 m01 m02 m03) (Vector4 m10 m11 m12 m13)
              (Vector4 m20 m21 m22 m23) (Vector4 m30 m31 m32 m33)) =
     Vector4 (a * m00 + b * m10 + c * m20 + d * m30)
             (a * m01 + b * m11 + c * m21 + d * m31)
             (a * m02 + b * m12 + c * m22 + d * m32)
             (a * m03 + b * m13 + c * m23 + d * m33)"

section \<open>Integer conversions\<close>

text \<open>
  An \<^verbatim>\<open>int\<close> of the source is an \<^typ>\<open>int\<close> here (signed overflow is undefined in
  C++, so a defined run computes in the integers) and a \<^verbatim>\<open>size_t\<close> is a \<^typ>\<open>nat\<close>
  below \<open>2 ^ 64\<close>. Where the source mixes the two, the C++ conversions are written out:
  an \<^verbatim>\<open>int\<close> converted to \<^verbatim>\<open>size_t\<close> keeps a non-negative value and adds \<open>2 ^ 64\<close> to
  a negative one, and a \<^verbatim>\<open>size_t\<close> subtraction wraps around below zero.
\<close>

definition size_t_of_int :: "int \<Rightarrow> nat" where
  "size_t_of_int i = (if i < 0 then nat (i + 2 ^ 64) else nat i)"

definition size_t_minus :: "nat \<Rightarrow> nat \<Rightarrow> nat" where
  "size_t_minus a b = (if b \<le> a then a - b else a + 2 ^ 64 - b)"

section \<open>Errors, flags and the evaluation result\<close>

text \<open>
  \<^verbatim>\<open>std::range_error\<close> is thrown by \<open>Evaluate\<close> (its message prints the query, and is
  left out), \<^verbatim>\<open>std::length_error\<close> by \<open>AddToProblem\<close> with the message as a string.
  A read of a control point that is not stored, or was never written, is undefined
  behaviour in the source; the model makes it a third outcome.
\<close>

datatype error = range_error | length_error string | undefined_behaviour

text \<open>
  Modelled from the spec: the flag constants \<^verbatim>\<open>EvalPosition\<close>, ... of \<^verbatim>\<open>trajectory.h\<close>,
  which is not among the sources. The spec calls \<open>flags\<close> a bitmask that selects among
  position, velocity, acceleration, orientation and angular velocity; each flag is one
  bit of its own.
\<close>

definition EvalPosition :: int where "EvalPosition = 1"
definition EvalVelocity :: int where "EvalVelocity = 2"
definition EvalAcceleration :: int where "EvalAcceleration = 4"
definition EvalOrientation :: int where "EvalOrientation = 8"
definition EvalAngularVelocity :: int where "EvalAngularVelocity = 16"

text \<open>The C++ condition \<^verbatim>\<open>if (flags & f)\<close>: the bitwise and is not zero.\<close>

definition has_flag :: "int \<Rightarrow> int \<Rightarrow> bool" where
  "has_flag flags f = (flags AND f \<noteq> 0)"

text \<open>
  Modelled from the spec: \<^verbatim>\<open>TrajectoryEvaluation<T>\<close> of \<^verbatim>\<open>trajectory.h\<close>, the result
  \<open>{position, velocity, acceleration, orientation, angular_velocity}\<close>. What
  \<^verbatim>\<open>std::make_unique<TrajectoryEvaluation<T>>()\<close> puts in a fresh result is not in the
  sources: \<open>Evaluate\<close> takes the fresh result as an argument.
\<close>

record TrajectoryEvaluation =
  position :: Vector3
  velocity :: Vector3
  acceleration :: Vector3
  orientation :: Quaternion
  angular_velocity :: Vector3

section \<open>Metadata, storage and the time index\<close>

text \<open>
  Modelled from the spec: \<^verbatim>\<open>SplineMeta\<close> of \<^verbatim>\<open>spline_base.h\<close>, the trajectory metadata
  \<open>{t0: time of first knot, dt: uniform spacing between knots, n: current knot count}\<close>.
  The fields are \<open>meta_dt\<close>, \<open>meta_t0\<close> and \<open>meta_n\<close>; the count is a \<^verbatim>\<open>size_t\<close>.
\<close>

record SplineMeta =
  meta_dt :: real
  meta_t0 :: real
  meta_n :: nat

text \<open>
  Modelled from the spec: the parameter storage \<^verbatim>\<open>holder_\<close> of
  \<^verbatim>\<open>dataholders/vectorholder.h\<close>, with \<open>AddParameter(size) \<rightarrow> index\<close> and
  \<open>Parameter(index) \<rightarrow> mutable reference to size-length buffer\<close>. Every block of this
  trajectory has size 3, so the storage is a list of blocks, each \<open>None\<close> (allocated,
  never written) or the 3-vector stored in it. \<open>Parameter i\<close> is the address of block
  \<open>i\<close>: a \<^verbatim>\<open>double*\<close> of the source is the index of its block.
\<close>

type_synonym VectorHolder = "Vector3 option list"

datatype block_ptr = Parameter nat

definition AddParameter :: "VectorHolder \<Rightarrow> nat \<Rightarrow> VectorHolder \<times> nat" where
  "AddParameter h ndims = (h @ [None], length h)"

text \<open>Reading and writing the 3-vector behind a pointer (\<^verbatim>\<open>Eigen::Map<Vector3>\<close>).\<close>

fun read_block :: "VectorHolder \<Rightarrow> block_ptr \<Rightarrow> error + Vector3" where
  "read_block h (Parameter i) =
     (if i < length h
      then (case h ! i of None \<Rightarrow> Inl undefined_behaviour | Some c \<Rightarrow> Inr c)
      else Inl undefined_behaviour)"

fun write_block :: "VectorHolder \<Rightarrow> block_ptr \<Rightarrow> Vector3 \<Rightarrow> error + VectorHolder" where
  "write_block h (Parameter i) c =
     (if i < length h then Inr (h[i := Some c]) else Inl undefined_behaviour)"

text \<open>
  A view (\<^verbatim>\<open>SplineViewBase\<close>) holds the storage and the metadata; the trajectory holds
  the same two members and \<^verbatim>\<open>AsView()\<close> is a view of them, so one record serves both.
\<close>

record SplineView =
  holder :: VectorHolder
  meta :: SplineMeta

text \<open>
  Modelled from the spec: the accessors \<^verbatim>\<open>dt()\<close>, \<^verbatim>\<open>t0()\<close> and \<^verbatim>\<open>NumKnots()\<close> of the view
  base in \<^verbatim>\<open>spline_base.h\<close>, which read the metadata.
\<close>

definition dt :: "SplineView \<Rightarrow> real" where
  "dt v = meta_dt (meta v)"

definition t0 :: "SplineView \<Rightarrow> real" where
  "t0 v = meta_t0 (meta v)"

definition NumKnots :: "SplineView \<Rightarrow> nat" where
  "NumKnots v = meta_n (meta v)"

text \<open>
  Modelled from the spec: \<^verbatim>\<open>CalculateIndexAndInterpolationAmount\<close> of
  \<^verbatim>\<open>spline_base.h\<close>: \<open>i0 = floor((t - t0)/dt)\<close>, \<open>u = (t - t0)/dt - i0\<close>.
\<close>

definition CalculateIndexAndInterpolationAmount :: "SplineView \<Rightarrow> real \<Rightarrow> int \<times> real" where
  "CalculateIndexAndInterpolationAmount v t =
     (let s = (t - t0 v) / dt v; i0 = \<lfloor>s\<rfloor> in (i0, s - of_int i0))"

text \<open>\<^verbatim>\<open>ControlPoint(i)\<close> and \<^verbatim>\<open>MutableControlPoint(i)\<close> map a 3-vector onto
  \<^verbatim>\<open>holder_->Parameter(i)\<close>; the \<^verbatim>\<open>int\<close> index is converted to \<^verbatim>\<open>size_t\<close>.\<close>

definition ControlPoint :: "SplineView \<Rightarrow> int \<Rightarrow> error + Vector3" where
  "ControlPoint v i = read_block (holder v) (Parameter (size_t_of_int i))"

definition MutableControlPoint :: "int \<Rightarrow> block_ptr" where
  "MutableControlPoint i = Parameter (size_t_of_int i)"

section \<open>AddToProblem\<close>

text \<open>
  \<^verbatim>\<open>ceres::Problem\<close> is the list of the parameter blocks added to it, each a pointer
  and a size. The reference arguments \<open>problem\<close>, \<open>meta\<close>, \<open>parameter_blocks\<close> and
  \<open>parameter_sizes\<close> are passed in and returned updated.
\<close>

type_synonym Problem = "(block_ptr \<times> nat) list"

type_synonym registration = "Problem \<times> block_ptr list \<times> nat list"

text \<open>The loop \<^verbatim>\<open>for (int i=i1; i < i2 + 4; ++i)\<close>, from the current \<open>i\<close>.\<close>

function AddToProblem_loop :: "int \<Rightarrow> int \<Rightarrow> registration \<Rightarrow> registration" where
  "AddToProblem_loop i2 i (problem, parameter_blocks, parameter_sizes) =
     (if i < i2 + 4
      then (let ptr = Parameter (size_t_of_int i); size = 3
            in AddToProblem_loop i2 (i + 1)
                 (problem @ [(ptr, size)], parameter_blocks @ [ptr], parameter_sizes @ [size]))
      else (problem, parameter_blocks, parameter_sizes))"
  by pat_completeness auto
termination
  by (relation "measure (\<lambda>(i2, i, r). nat (i2 + 4 - i))") auto

text \<open>
  \<open>time_list\<close> is the argument \<^verbatim>\<open>times\<close>, the \<^verbatim>\<open>initializer_list\<close> of (t1, t2) pairs. The loop over it
  leaves its last pair in \<open>(t1, t2)\<close>; the printing to \<^verbatim>\<open>std::cout\<close> is left out. The
  assignment to \<open>meta.n\<close> converts the \<^verbatim>\<open>int\<close> value to the count's type.
\<close>

definition AddToProblem ::
  "SplineView \<Rightarrow> Problem \<Rightarrow> (real \<times> real) list \<Rightarrow> SplineMeta \<Rightarrow> block_ptr list \<Rightarrow> nat list
   \<Rightarrow> error + (Problem \<times> SplineMeta \<times> block_ptr list \<times> nat list)" where
  "AddToProblem s problem time_list meta_out parameter_blocks parameter_sizes =
     (if length time_list \<noteq> 1 then Inl (length_error ''Multi times not implemented yet'')
      else
        (let (t1, t2) = last time_list;
             (i1, u_notused) = CalculateIndexAndInterpolationAmount s t1;
             (i2, u_notused) = CalculateIndexAndInterpolationAmount s t2;
             (problem', blocks', sizes') =
                AddToProblem_loop i2 i1 (problem, parameter_blocks, parameter_sizes)
         in Inr (problem',
                 meta_out\<lparr>meta_dt := dt s,
                          meta_n := size_t_of_int (i2 + 4 - i1 + 1),
                          meta_t0 := t0 s + of_int i1 * dt s\<rparr>,
                 blocks', sizes')))"

section \<open>Evaluate\<close>

text \<open>
  One statement \<^verbatim>\<open>acc += B(i - i0) * cp\<close> of the loop, under its flag: the control
  point is read only when the flag is set.
\<close>

definition accumulate ::
  "bool \<Rightarrow> Vector4 \<Rightarrow> int \<Rightarrow> error + Vector3 \<Rightarrow> Vector3 \<Rightarrow> error + Vector3" where
  "accumulate requested B k cp acc =
     (if requested
      then (case cp of Inl e \<Rightarrow> Inl e | Inr c \<Rightarrow> Inr (add3 acc (scale3 (coeff B k) c)))
      else Inr acc)"

text \<open>The loop \<^verbatim>\<open>for (int i=i0; i < i0 + 4; ++i)\<close>, from the current \<open>i\<close>.\<close>

function Evaluate_loop ::
  "SplineView \<Rightarrow> int \<Rightarrow> Vector4 \<Rightarrow> Vector4 \<Rightarrow> Vector4 \<Rightarrow> int \<Rightarrow> int \<Rightarrow> TrajectoryEvaluation
   \<Rightarrow> error + TrajectoryEvaluation" where
  "Evaluate_loop v flags Bp Bv Ba i0 i result =
     (if i < i0 + 4
      then (let cp = ControlPoint v i in
            (case accumulate (has_flag flags EvalPosition) Bp (i - i0) cp (position result) of
               Inl e \<Rightarrow> Inl e
             | Inr p \<Rightarrow>
            (case accumulate (has_flag flags EvalVelocity) Bv (i - i0) cp (velocity result) of
               Inl e \<Rightarrow> Inl e
             | Inr vel \<Rightarrow>
            (case accumulate (has_flag flags EvalAcceleration) Ba (i - i0) cp (acceleration result) of
               Inl e \<Rightarrow> Inl e
             | Inr a \<Rightarrow>
                 Evaluate_loop v flags Bp Bv Ba i0 (i + 1)
                   (result\<lparr>position := p, velocity := vel, acceleration := a\<rparr>)))))
      else Inr result)"
  by pat_completeness auto
termination
  by (relation "measure (\<lambda>(v, flags, Bp, Bv, Ba, i0, i, result). nat (i0 + 4 - i))") auto

text \<open>
  \<open>Evaluate M fresh v t flags\<close>: \<open>M\<close> is the basis matrix (a constant of
  \<^verbatim>\<open>spline_base.h\<close>, not among the sources) and \<open>fresh\<close> the newly made result. The
  comparison \<^verbatim>\<open>i0 > (N - 4)\<close> is one of \<^verbatim>\<open>size_t\<close> values. \<open>u2\<close>, \<open>u3\<close> and the weight
  vectors \<open>Bp\<close>, \<open>Bv\<close>, \<open>Ba\<close> are assigned in the source under the flags that later read
  them, and are bound here without the test.
\<close>

definition Evaluate ::
  "Matrix4 \<Rightarrow> TrajectoryEvaluation \<Rightarrow> SplineView \<Rightarrow> real \<Rightarrow> int \<Rightarrow> error + TrajectoryEvaluation" where
  "Evaluate M fresh v t flags =
     (let (i0, u) = CalculateIndexAndInterpolationAmount v t;
          N = NumKnots v
      in if N < 4 \<or> i0 < 0 \<or> size_t_of_int i0 > size_t_minus N 4 then Inl range_error
         else
           (let dt_inv = 1 / dt v;
                u2 = u ^ 2;
                u3 = u ^ 3;
                Bp = row_times (Vector4 1 u u2 u3) M;
                Bv = row_times (scale4 dt_inv (Vector4 0 1 (2 * u) (3 * u2))) M;
                Ba = row_times (scale4 (dt_inv ^ 2) (Vector4 0 0 2 (6 * u))) M;
                r1 = (if has_flag flags EvalPosition then fresh\<lparr>position := setZero\<rparr> else fresh);
                r2 = (if has_flag flags EvalVelocity then r1\<lparr>velocity := setZero\<rparr> else r1);
                r3 = (if has_flag flags EvalAcceleration then r2\<lparr>acceleration := setZero\<rparr> else r2)
            in case Evaluate_loop v flags Bp Bv Ba i0 i0 r3 of
                 Inl e \<Rightarrow> Inl e
               | Inr r4 \<Rightarrow>
                   (let r5 = (if has_flag flags EvalOrientation
                              then r4\<lparr>orientation := setIdentity\<rparr> else r4);
                        r6 = (if has_flag flags EvalAngularVelocity
                              then r5\<lparr>angular_velocity := setZero\<rparr> else r5)
                    in Inr r6)))"

section \<open>AppendKnot\<close>

text \<open>
  \<open>AppendKnot\<close> allocates a block, writes the point through \<open>MutableControlPoint\<close> and
  increments the count. \<open>Trajectory_ControlPoint\<close> is the \<^verbatim>\<open>ControlPoint(size_t i)\<close> of
  the trajectory class, which goes through \<open>MutableControlPoint\<close> of its view. The
  \<^verbatim>\<open>size_t\<close> index is converted to \<^verbatim>\<open>int\<close> on the way. The increment of the count
  is written without wrap-around: the count is the number of blocks held in memory.
\<close>

definition AppendKnot :: "SplineView \<Rightarrow> Vector3 \<Rightarrow> error + SplineView" where
  "AppendKnot s cp =
     (let (h, i) = AddParameter (holder s) 3
      in case write_block h (MutableControlPoint (int i)) cp of
           Inl e \<Rightarrow> Inl e
         | Inr h' \<Rightarrow>
             Inr (s\<lparr>holder := h', meta := (meta s)\<lparr>meta_n := meta_n (meta s) + 1\<rparr>\<rparr>))"

definition Trajectory_ControlPoint :: "SplineView \<Rightarrow> nat \<Rightarrow> error + Vector3" where
  "Trajectory_ControlPoint s i = read_block (holder s) (MutableControlPoint (int i))"

section \<open>The stored knots\<close>

text \<open>
  The invariant of the data model: \<open>n\<close> is the number of control points stored, and
  every stored control point has been written. The constructor's empty trajectory has
  it and \<open>AppendKnot\<close> keeps it.
\<close>

definition knots_stored :: "SplineView \<Rightarrow> bool" where
  "knots_stored v = (meta_n (meta v) = length (holder v) \<and> list_all (\<lambda>c. c \<noteq> None) (holder v))"

text \<open>
  The spec's accumulation, in its own words: the sum over the 4 active knots of
  (weight for that knot) times (control point at that knot), from a zero accumulator.
\<close>

definition blend :: "Vector4 \<Rightarrow> Vector3 \<Rightarrow> Vector3 \<Rightarrow> Vector3 \<Rightarrow> Vector3 \<Rightarrow> Vector3" where
  "blend B c0 c1 c2 c3 =
     add3 (add3 (add3 (add3 setZero (scale3 (coeff B 0) c0)) (scale3 (coeff B 1) c1))
       (scale3 (coeff B 2) c2)) (scale3 (coeff B 3) c3)"

section \<open>Example data\<close>

text \<open>
  The example of the spec: knots at \<open>t0 = 0\<close>, \<open>dt = 1\<close>, with 6 control points. The
  basis matrix of the uniform cubic B-spline stands for \<open>M\<close> in the examples, and a
  fresh result with arbitrary contents for the newly made result.
\<close>

definition six_knots :: SplineView where
  "six_knots =
     \<lparr>holder = [Some (Vector3 0 0 0), Some (Vector3 1 0 0), Some (Vector3 2 1 0),
                Some (Vector3 3 1 1), Some (Vector3 4 0 1), Some (Vector3 5 0 0)],
      meta = \<lparr>meta_dt = 1, meta_t0 = 0, meta_n = 6\<rparr>\<rparr>"

definition cubic_basis :: Matrix4 where
  "cubic_basis =
     Matrix4 (Vector4 (1 / 6) (4 / 6) (1 / 6) 0)
             (Vector4 (- 3 / 6) 0 (3 / 6) 0)
             (Vector4 (3 / 6) (- 6 / 6) (3 / 6) 0)
             (Vector4 (- 1 / 6) (3 / 6) (- 3 / 6) (1 / 6))"

definition fresh_result :: TrajectoryEvaluation where
  "fresh_result =
     \<lparr>position = Vector3 7 7 7, velocity = Vector3 8 8 8, acceleration = Vector3 9 9 9,
      orientation = Quaternion 0 0 0 1, angular_velocity = Vector3 5 5 5\<rparr>"

text \<open>The same six control points on knots at \<open>t0 = 1\<close> with the spacing \<open>dt = 1/2\<close>.\<close>

definition half_spaced_knots :: SplineView where
  "half_spaced_knots =
     \<lparr>holder = holder six_knots, meta = \<lparr>meta_dt = 1 / 2, meta_t0 = 1, meta_n = 6\<rparr>\<rparr>"

text \<open>An empty trajectory, and an output metadata record before it is filled.\<close>

definition no_knots :: SplineView where
  "no_knots = \<lparr>holder = [], meta = \<lparr>meta_dt = 1, meta_t0 = 0, meta_n = 0\<rparr>\<rparr>"

definition empty_meta :: SplineMeta where
  "empty_meta = \<lparr>meta_dt = 0, meta_t0 = 0, meta_n = 0\<rparr>"

section \<open>Lemmas on the model\<close>

text \<open>The recursion equations of the two loops are unfolded by hand, one step at a time.\<close>

declare Evaluate_loop.simps [simp del] AddToProblem_loop.simps [simp del]

lemma size_t_guard: "(N < 4 \<or> i0 < 0 \<or> size_t_of_int i0 > size_t_minus N 4) = (N < 4 \<or> i0 < 0 \<or> i0 > int N - 4)"
  by (auto simp: size_t_of_int_def size_t_minus_def)

lemma knots_stored_read:
  assumes "knots_stored v" "0 \<le> i" "i < int (NumKnots v)"
  shows "\<exists>c. ControlPoint v i = Inr c"
proof -
  from assms have len: "nat i < length (holder v)"
    by (simp add: knots_stored_def NumKnots_def)
  from assms(1) have "holder v ! nat i \<noteq> None"
    using len by (simp add: knots_stored_def list_all_length)
  then obtain c where "holder v ! nat i = Some c" by auto
  with len assms(2) show ?thesis
    by (simp add: ControlPoint_def size_t_of_int_def)
qed

lemma Evaluate_loop_unrolled:
  assumes "ControlPoint v i0 = Inr c0" "ControlPoint v (i0 + 1) = Inr c1"
    "ControlPoint v (i0 + 2) = Inr c2" "ControlPoint v (i0 + 3) = Inr c3"
  shows "Evaluate_loop v flags Bp Bv Ba i0 i0 r =
    Inr (r\<lparr>position := (if has_flag flags EvalPosition
              then add3 (add3 (add3 (add3 (position r) (scale3 (coeff Bp 0) c0)) (scale3 (coeff Bp 1) c1))
                     (scale3 (coeff Bp 2) c2)) (scale3 (coeff Bp 3) c3) else position r),
           velocity := (if has_flag flags EvalVelocity
              then add3 (add3 (add3 (add3 (velocity r) (scale3 (coeff Bv 0) c0)) (scale3 (coeff Bv 1) c1))
                     (scale3 (coeff Bv 2) c2)) (scale3 (coeff Bv 3) c3) else velocity r),
           acceleration := (if has_flag flags EvalAcceleration
              then add3 (add3 (add3 (add3 (acceleration r) (scale3 (coeff Ba 0) c0)) (scale3 (coeff Ba 1) c1))
                     (scale3 (coeff Ba 2) c2)) (scale3 (coeff Ba 3) c3) else acceleration r)\<rparr>)"
proof -
  have s4: "Evaluate_loop v flags Bp Bv Ba i0 (i0 + 4) r' = Inr r'" for r'
    by (subst Evaluate_loop.simps) simp
  have step: "ControlPoint v (i0 + k) = Inr c \<Longrightarrow> 0 \<le> k \<Longrightarrow> k < 4 \<Longrightarrow>
      Evaluate_loop v flags Bp Bv Ba i0 (i0 + k) r' =
      Evaluate_loop v flags Bp Bv Ba i0 (i0 + (k + 1))
        (r'\<lparr>position := (if has_flag flags EvalPosition then add3 (position r') (scale3 (coeff Bp k) c) else position r'),
            velocity := (if has_flag flags EvalVelocity then add3 (velocity r') (scale3 (coeff Bv k) c) else velocity r'),
            acceleration := (if has_flag flags EvalAcceleration then add3 (acceleration r') (scale3 (coeff Ba k) c) else acceleration r')\<rparr>)"
    for k c r'
    by (subst Evaluate_loop.simps) (simp add: accumulate_def Let_def add.assoc)
  show ?thesis
    using step[of 0 c0 r] step[of 1 c1] step[of 2 c2] step[of 3 c3] assms s4
    by simp
qed

lemma Evaluate_out_of_range:
  assumes "CalculateIndexAndInterpolationAmount v t = (i0, u)"
    and "NumKnots v < 4 \<or> i0 < 0 \<or> int (NumKnots v) - 4 < i0"
  shows "Evaluate M fresh v t flags = Inl range_error"
  using assms size_t_guard[of "NumKnots v" i0] by (simp add: Evaluate_def)

lemma Evaluate_in_range:
  assumes idx: "CalculateIndexAndInterpolationAmount v t = (i0, u)"
    and guard: "4 \<le> NumKnots v" "0 \<le> i0" "i0 \<le> int (NumKnots v) - 4"
    and reads: "ControlPoint v i0 = Inr c0" "ControlPoint v (i0 + 1) = Inr c1"
      "ControlPoint v (i0 + 2) = Inr c2" "ControlPoint v (i0 + 3) = Inr c3"
  shows "Evaluate M fresh v t flags =
    Inr (fresh\<lparr>
      position := (if has_flag flags EvalPosition
        then blend (row_times (Vector4 1 u (u ^ 2) (u ^ 3)) M) c0 c1 c2 c3 else position fresh),
      velocity := (if has_flag flags EvalVelocity
        then blend (row_times (scale4 (1 / dt v) (Vector4 0 1 (2 * u) (3 * u ^ 2))) M) c0 c1 c2 c3
        else velocity fresh),
      acceleration := (if has_flag flags EvalAcceleration
        then blend (row_times (scale4 ((1 / dt v) ^ 2) (Vector4 0 0 2 (6 * u))) M) c0 c1 c2 c3
        else acceleration fresh),
      orientation := (if has_flag flags EvalOrientation then setIdentity else orientation fresh),
      angular_velocity := (if has_flag flags EvalAngularVelocity then setZero
        else angular_velocity fresh)\<rparr>)"
proof -
  have g: "\<not> (NumKnots v < 4 \<or> i0 < 0 \<or> size_t_of_int i0 > size_t_minus (NumKnots v) 4)"
    using guard size_t_guard[of "NumKnots v" i0] by simp
  show ?thesis
    using g idx
    by (simp add: Evaluate_def Let_def Evaluate_loop_unrolled[OF reads] blend_def)
qed

lemma knots_stored_window:
  assumes "knots_stored v" "4 \<le> NumKnots v" "0 \<le> i0" "i0 \<le> int (NumKnots v) - 4"
  shows "\<exists>c0 c1 c2 c3. ControlPoint v i0 = Inr c0 \<and> ControlPoint v (i0 + 1) = Inr c1 \<and>
      ControlPoint v (i0 + 2) = Inr c2 \<and> ControlPoint v (i0 + 3) = Inr c3"
proof -
  obtain c0 where "ControlPoint v i0 = Inr c0"
    using knots_stored_read[of v i0] assms by auto
  moreover obtain c1 where "ControlPoint v (i0 + 1) = Inr c1"
    using knots_stored_read[of v "i0 + 1"] assms by auto
  moreover obtain c2 where "ControlPoint v (i0 + 2) = Inr c2"
    using knots_stored_read[of v "i0 + 2"] assms by auto
  moreover obtain c3 where "ControlPoint v (i0 + 3) = Inr c3"
    using knots_stored_read[of v "i0 + 3"] assms by auto
  ultimately show ?thesis by blast
qed

lemma ControlPoint_error: "ControlPoint v i = Inl e \<Longrightarrow> e = undefined_behaviour"
  by (auto simp: ControlPoint_def split: if_splits option.splits)

lemma accumulate_error: "accumulate b B k (ControlPoint v i) acc = Inl e \<Longrightarrow> e = undefined_behaviour"
  by (auto simp: accumulate_def split: if_splits sum.splits dest: ControlPoint_error)

lemma Evaluate_loop_error:
  "Evaluate_loop v flags Bp Bv Ba i0 i r = Inl e \<Longrightarrow> e = undefined_behaviour"
proof (induction v flags Bp Bv Ba i0 i r rule: Evaluate_loop.induct)
  case (1 v flags Bp Bv Ba i0 i result)
  show ?case
  proof (cases "i < i0 + 4")
    case False
    with "1.prems" show ?thesis by (subst (asm) Evaluate_loop.simps) simp
  next
    case True
    from "1.prems" True show ?thesis
      by (subst (asm) Evaluate_loop.simps)
        (auto simp: Let_def split: sum.splits dest: accumulate_error "1.IH"[OF True refl])
  qed
qed

lemma Evaluate_loop_frame:
  "Evaluate_loop v flags Bp Bv Ba i0 i r = Inr r' \<Longrightarrow>
     (\<not> has_flag flags EvalPosition \<longrightarrow> position r' = position r) \<and>
     (\<not> has_flag flags EvalVelocity \<longrightarrow> velocity r' = velocity r) \<and>
     (\<not> has_flag flags EvalAcceleration \<longrightarrow> acceleration r' = acceleration r) \<and>
     orientation r' = orientation r \<and> angular_velocity r' = angular_velocity r"
proof (induction v flags Bp Bv Ba i0 i r rule: Evaluate_loop.induct)
  case (1 v flags Bp Bv Ba i0 i result)
  show ?case
  proof (cases "i < i0 + 4")
    case False
    with "1.prems" show ?thesis by (subst (asm) Evaluate_loop.simps) simp
  next
    case True
    let ?cp = "ControlPoint v i"
    from "1.prems" True obtain p vel a where
      p: "accumulate (has_flag flags EvalPosition) Bp (i - i0) ?cp (position result) = Inr p" and
      vel: "accumulate (has_flag flags EvalVelocity) Bv (i - i0) ?cp (velocity result) = Inr vel" and
      a: "accumulate (has_flag flags EvalAcceleration) Ba (i - i0) ?cp (acceleration result) = Inr a" and
      rest: "Evaluate_loop v flags Bp Bv Ba i0 (i + 1)
               (result\<lparr>position := p, velocity := vel, acceleration := a\<rparr>) = Inr r'"
      by (subst (asm) Evaluate_loop.simps) (auto simp: Let_def split: sum.splits)
    note IH = "1.IH"[OF True refl p vel a rest]
    from p have "\<not> has_flag flags EvalPosition \<Longrightarrow> p = position result"
      by (simp add: accumulate_def)
    moreover from vel have "\<not> has_flag flags EvalVelocity \<Longrightarrow> vel = velocity result"
      by (simp add: accumulate_def)
    moreover from a have "\<not> has_flag flags EvalAcceleration \<Longrightarrow> a = acceleration result"
      by (simp add: accumulate_def)
    ultimately show ?thesis using IH by simp
  qed
qed

lemma Evaluate_not_range_error:
  assumes "CalculateIndexAndInterpolationAmount v t = (i0, u)"
    and "4 \<le> NumKnots v" "0 \<le> i0" "i0 \<le> int (NumKnots v) - 4"
  shows "Evaluate M fresh v t flags \<noteq> Inl range_error"
proof -
  have g: "\<not> (NumKnots v < 4 \<or> i0 < 0 \<or> size_t_of_int i0 > size_t_minus (NumKnots v) 4)"
    using assms size_t_guard[of "NumKnots v" i0] by simp
  show ?thesis
    using g assms(1)
    apply (simp add: Evaluate_def Let_def split del: if_split)
    apply (split sum.split)
    apply (intro conjI allI impI)
     apply (drule Evaluate_loop_error)
     apply simp
    apply (simp add: Let_def)
    done
qed

lemma Evaluate_frame:
  assumes "Evaluate M fresh v t flags = Inr r"
  shows "(\<not> has_flag flags EvalPosition \<longrightarrow> position r = position fresh) \<and>
     (\<not> has_flag flags EvalVelocity \<longrightarrow> velocity r = velocity fresh) \<and>
     (\<not> has_flag flags EvalAcceleration \<longrightarrow> acceleration r = acceleration fresh) \<and>
     (\<not> has_flag flags EvalOrientation \<longrightarrow> orientation r = orientation fresh) \<and>
     (\<not> has_flag flags EvalAngularVelocity \<longrightarrow> angular_velocity r = angular_velocity fresh)"
proof -
  obtain i0 u where idx: "CalculateIndexAndInterpolationAmount v t = (i0, u)"
    by (cases "CalculateIndexAndInterpolationAmount v t")
  from assms idx obtain Bp Bv Ba r3 r4 where
    loop: "Evaluate_loop v flags Bp Bv Ba i0 i0 r3 = Inr r4" and
    r3: "r3 = (if has_flag flags EvalAcceleration
               then (if has_flag flags EvalVelocity
                     then (if has_flag flags EvalPosition then fresh\<lparr>position := setZero\<rparr> else fresh)
                            \<lparr>velocity := setZero\<rparr>
                     else (if has_flag flags EvalPosition then fresh\<lparr>position := setZero\<rparr> else fresh))
                   \<lparr>acceleration := setZero\<rparr>
               else (if has_flag flags EvalVelocity
                     then (if has_flag flags EvalPosition then fresh\<lparr>position := setZero\<rparr> else fresh)
                            \<lparr>velocity := setZero\<rparr>
                     else (if has_flag flags EvalPosition then fresh\<lparr>position := setZero\<rparr> else fresh)))" and
    r: "r = (if has_flag flags EvalAngularVelocity
             then (if has_flag flags EvalOrientation then r4\<lparr>orientation := setIdentity\<rparr> else r4)
                    \<lparr>angular_velocity := setZero\<rparr>
             else (if has_flag flags EvalOrientation then r4\<lparr>orientation := setIdentity\<rparr> else r4))"
    by (simp add: Evaluate_def Let_def split: if_split_asm sum.split_asm split del: if_split)
  note fr = Evaluate_loop_frame[OF loop]
  show ?thesis
    unfolding r using fr unfolding r3 by simp
qed

lemma AppendKnot_result:
  "AppendKnot s cp =
     Inr (s\<lparr>holder := holder s @ [Some cp], meta := (meta s)\<lparr>meta_n := meta_n (meta s) + 1\<rparr>\<rparr>)"
  by (simp add: AppendKnot_def AddParameter_def MutableControlPoint_def size_t_of_int_def)

lemma knots_stored_AppendKnot:
  "knots_stored s \<Longrightarrow> AppendKnot s cp = Inr s' \<Longrightarrow> knots_stored s'"
  by (auto simp: AppendKnot_result knots_stored_def)

lemma knots_stored_empty: "knots_stored \<lparr>holder = [], meta = m\<lparr>meta_n := 0\<rparr>\<rparr>"
  by (simp add: knots_stored_def)

lemma Trajectory_ControlPoint_nth:
  "i < length (holder s) \<Longrightarrow> holder s ! i = Some c \<Longrightarrow> Trajectory_ControlPoint s i = Inr c"
  by (simp add: Trajectory_ControlPoint_def MutableControlPoint_def size_t_of_int_def)

lemma AddToProblem_loop_closed:
  "AddToProblem_loop i2 i (problem, parameter_blocks, parameter_sizes) =
     (problem @ map (\<lambda>j. (Parameter (size_t_of_int j), 3)) [i..i2 + 3],
      parameter_blocks @ map (\<lambda>j. Parameter (size_t_of_int j)) [i..i2 + 3],
      parameter_sizes @ map (\<lambda>j. 3) [i..i2 + 3])"
proof (induction i2 i "(problem, parameter_blocks, parameter_sizes)"
    arbitrary: problem parameter_blocks parameter_sizes rule: AddToProblem_loop.induct)
  case (1 i2 i problem parameter_blocks parameter_sizes)
  show ?case
  proof (cases "i < i2 + 4")
    case True
    then have "[i..i2 + 3] = i # [i + 1..i2 + 3]"
      by (simp add: upto_rec1)
    with True "1.hyps"[OF True refl refl] show ?thesis
      by (subst AddToProblem_loop.simps) (simp add: Let_def)
  next
    case False
    then show ?thesis
      by (subst AddToProblem_loop.simps) simp
  qed
qed

lemma AddToProblem_single:
  assumes "CalculateIndexAndInterpolationAmount s t1 = (i1, u1)"
    and "CalculateIndexAndInterpolationAmount s t2 = (i2, u2)"
  shows "AddToProblem s problem [(t1, t2)] meta_out parameter_blocks parameter_sizes =
     Inr (problem @ map (\<lambda>j. (Parameter (size_t_of_int j), 3)) [i1..i2 + 3],
          meta_out\<lparr>meta_dt := dt s, meta_n := size_t_of_int (i2 + 4 - i1 + 1),
                   meta_t0 := t0 s + of_int i1 * dt s\<rparr>,
          parameter_blocks @ map (\<lambda>j. Parameter (size_t_of_int j)) [i1..i2 + 3],
          parameter_sizes @ map (\<lambda>j. 3) [i1..i2 + 3])"
  using assms by (simp add: AddToProblem_def AddToProblem_loop_closed)

lemma index_mono:
  assumes "0 < dt s" "t1 \<le> t2"
  shows "fst (CalculateIndexAndInterpolationAmount s t1) \<le> fst (CalculateIndexAndInterpolationAmount s t2)"
  using assms
  by (simp add: CalculateIndexAndInterpolationAmount_def Let_def floor_mono divide_right_mono)

lemma AddToProblem_n_exceeds_blocks:
  assumes "CalculateIndexAndInterpolationAmount s t1 = (i1, u1)"
    and "CalculateIndexAndInterpolationAmount s t2 = (i2, u2)"
    and "i1 \<le> i2 + 4"
    and "AddToProblem s problem [(t1, t2)] meta_out [] [] = Inr (problem', meta', blocks', sizes')"
  shows "meta_n meta' = length blocks' + 1"
  using assms(3,4) unfolding AddToProblem_single[OF assms(1,2)]
  by (auto simp: size_t_of_int_def)

text \<open>Derivatives of the weight rows, and of a weighted sum along the time axis.\<close>

lemma position_row_derivative:
  "((\<lambda>y. coeff (row_times (Vector4 1 y (y ^ 2) (y ^ 3)) M) k) has_real_derivative
      coeff (row_times (Vector4 0 1 (2 * x) (3 * x ^ 2)) M) k) (at x within S)"
proof -
  obtain r0 r1 r2 r3 where M: "M = Matrix4 r0 r1 r2 r3" by (cases M)
  obtain a0 a1 a2 a3 where r0: "r0 = Vector4 a0 a1 a2 a3" by (cases r0)
  obtain b0 b1 b2 b3 where r1: "r1 = Vector4 b0 b1 b2 b3" by (cases r1)
  obtain c0 c1 c2 c3 where r2: "r2 = Vector4 c0 c1 c2 c3" by (cases r2)
  obtain d0 d1 d2 d3 where r3: "r3 = Vector4 d0 d1 d2 d3" by (cases r3)
  show ?thesis
    unfolding M r0 r1 r2 r3
    by (auto intro!: derivative_eq_intros)
qed

lemma velocity_row_derivative:
  "((\<lambda>y. coeff (row_times (Vector4 0 1 (2 * y) (3 * y ^ 2)) M) k) has_real_derivative
      coeff (row_times (Vector4 0 0 2 (6 * x)) M) k) (at x within S)"
proof -
  obtain r0 r1 r2 r3 where M: "M = Matrix4 r0 r1 r2 r3" by (cases M)
  obtain a0 a1 a2 a3 where r0: "r0 = Vector4 a0 a1 a2 a3" by (cases r0)
  obtain b0 b1 b2 b3 where r1: "r1 = Vector4 b0 b1 b2 b3" by (cases r1)
  obtain c0 c1 c2 c3 where r2: "r2 = Vector4 c0 c1 c2 c3" by (cases r2)
  obtain d0 d1 d2 d3 where r3: "r3 = Vector4 d0 d1 d2 d3" by (cases r3)
  show ?thesis
    unfolding M r0 r1 r2 r3
    by (auto intro!: derivative_eq_intros)
qed

lemma coeff_row_times_scale4:
  "coeff (row_times (scale4 w U) M) k = w * coeff (row_times U M) k"
proof -
  obtain r0 r1 r2 r3 where M: "M = Matrix4 r0 r1 r2 r3" by (cases M)
  obtain a0 a1 a2 a3 where r0: "r0 = Vector4 a0 a1 a2 a3" by (cases r0)
  obtain b0 b1 b2 b3 where r1: "r1 = Vector4 b0 b1 b2 b3" by (cases r1)
  obtain c0 c1 c2 c3 where r2: "r2 = Vector4 c0 c1 c2 c3" by (cases r2)
  obtain d0 d1 d2 d3 where r3: "r3 = Vector4 d0 d1 d2 d3" by (cases r3)
  obtain u0 u1 u2 u3 where U: "U = Vector4 u0 u1 u2 u3" by (cases U)
  show ?thesis
    unfolding M r0 r1 r2 r3 U
    by (simp add: algebra_simps)
qed

lemma coeff3_blend:
  "coeff3 (blend B c0 c1 c2 c3) j =
     coeff B 0 * coeff3 c0 j + coeff B 1 * coeff3 c1 j + coeff B 2 * coeff3 c2 j + coeff B 3 * coeff3 c3 j"
  by (cases c0; cases c1; cases c2; cases c3; cases B) (simp add: blend_def setZero_def)

lemma blend_derivative:
  assumes "\<And>k. ((\<lambda>y. coeff (B y) k) has_real_derivative coeff B' k) (at x within S)"
  shows "((\<lambda>y. coeff3 (blend (B y) c0 c1 c2 c3) j) has_real_derivative
           coeff3 (blend B' c0 c1 c2 c3) j) (at x within S)"
  unfolding coeff3_blend
  by (rule derivative_eq_intros assms refl | simp)+

lemma coeff3_blend_scale4:
  "coeff3 (blend (row_times (scale4 w U) M) c0 c1 c2 c3) j =
     w * coeff3 (blend (row_times U M) c0 c1 c2 c3) j"
  by (simp add: coeff3_blend coeff_row_times_scale4 algebra_simps)

lemma blend_time_derivative:
  assumes row: "\<And>k y. ((\<lambda>y. coeff (B y) k) has_real_derivative coeff (B' y) k) (at y)"
  shows "((\<lambda>t'. w * coeff3 (blend (B ((t' - a) / d - c)) c0 c1 c2 c3) j) has_real_derivative
           (w * (1 / d)) * coeff3 (blend (B' ((t - a) / d - c)) c0 c1 c2 c3) j) (at t within S)"
proof -
  have "((\<lambda>t'. t' - a) has_real_derivative 1) (at t within S)"
    by (auto intro!: derivative_eq_intros)
  from DERIV_diff[OF DERIV_cdivide[OF this, of d] DERIV_const[of c]]
  have inner: "((\<lambda>t'. (t' - a) / d - c) has_real_derivative 1 / d) (at t within S)"
    by simp
  have outer: "((\<lambda>y. coeff3 (blend (B y) c0 c1 c2 c3) j) has_real_derivative
      coeff3 (blend (B' ((t - a) / d - c)) c0 c1 c2 c3) j) (at ((t - a) / d - c))"
    by (rule blend_derivative) (rule row)
  have "((\<lambda>t'. coeff3 (blend (B ((t' - a) / d - c)) c0 c1 c2 c3) j) has_real_derivative
      coeff3 (blend (B' ((t - a) / d - c)) c0 c1 c2 c3) j * (1 / d)) (at t within S)"
    by (rule DERIV_chain'[OF inner outer])
  from DERIV_cmult[OF this, of w] show ?thesis
    by (simp add: mult_ac)
qed

lemma interpolation_amount_bounds:
  assumes "CalculateIndexAndInterpolationAmount v t = (i0, u)"
  shows "0 \<le> u" "u < 1" "u = (t - t0 v) / dt v - of_int i0"
  using assms by (auto simp: CalculateIndexAndInterpolationAmount_def Let_def) linarith+

lemma index_nearby:
  assumes dt: "0 < dt v"
    and idx: "CalculateIndexAndInterpolationAmount v t = (i0, u)"
    and lo: "- (dt v * u) \<le> t' - t" and hi: "t' - t < dt v * (1 - u)"
  shows "CalculateIndexAndInterpolationAmount v t' = (i0, (t' - t0 v) / dt v - of_int i0)"
proof -
  have u: "u = (t - t0 v) / dt v - of_int i0"
    by (rule interpolation_amount_bounds[OF idx])
  have split: "(t' - t0 v) / dt v = (t - t0 v) / dt v + (t' - t) / dt v"
    by (simp add: diff_divide_distrib)
  from lo dt have "- u \<le> (t' - t) / dt v"
    by (simp add: pos_le_divide_eq mult.commute)
  moreover from hi dt have "(t' - t) / dt v < 1 - u"
    by (simp add: pos_divide_less_eq mult.commute)
  ultimately have "of_int i0 \<le> (t' - t0 v) / dt v" "(t' - t0 v) / dt v < of_int i0 + 1"
    unfolding split u by linarith+
  then have "\<lfloor>(t' - t0 v) / dt v\<rfloor> = i0"
    by (intro floor_unique) simp_all
  then show ?thesis
    by (simp add: CalculateIndexAndInterpolationAmount_def Let_def)
qed

lemma Evaluate_position_derivative_within:
  assumes dt: "0 < dt v"
    and idx: "CalculateIndexAndInterpolationAmount v t = (i0, u)"
    and guard: "4 \<le> NumKnots v" "0 \<le> i0" "i0 \<le> int (NumKnots v) - 4"
    and reads: "ControlPoint v i0 = Inr c0" "ControlPoint v (i0 + 1) = Inr c1"
      "ControlPoint v (i0 + 2) = Inr c2" "ControlPoint v (i0 + 3) = Inr c3"
    and flags: "has_flag flags EvalPosition" "has_flag flags EvalVelocity"
    and S: "t \<in> S" "0 < e"
      "\<And>t'. t' \<in> S \<Longrightarrow> dist t' t < e \<Longrightarrow> - (dt v * u) \<le> t' - t \<and> t' - t < dt v * (1 - u)"
  shows "((\<lambda>t'. coeff3 (position (projr (Evaluate M fresh v t' flags))) j) has_real_derivative
           coeff3 (velocity (projr (Evaluate M fresh v t flags))) j) (at t within S)"
proof -
  let ?B = "\<lambda>y. row_times (Vector4 1 y (y ^ 2) (y ^ 3)) M"
  let ?B' = "\<lambda>y. row_times (Vector4 0 1 (2 * y) (3 * y ^ 2)) M"
  let ?g = "\<lambda>t'. 1 * coeff3 (blend (?B ((t' - t0 v) / dt v - of_int i0)) c0 c1 c2 c3) j"
  have u: "u = (t - t0 v) / dt v - of_int i0"
    by (rule interpolation_amount_bounds[OF idx])
  have "(?g has_real_derivative
      (1 * (1 / dt v)) * coeff3 (blend (?B' ((t - t0 v) / dt v - of_int i0)) c0 c1 c2 c3) j)
      (at t within S)"
    by (rule blend_time_derivative[where B = "?B" and B' = "?B'"]) (rule position_row_derivative)
  moreover have "coeff3 (velocity (projr (Evaluate M fresh v t flags))) j =
      (1 * (1 / dt v)) * coeff3 (blend (?B' ((t - t0 v) / dt v - of_int i0)) c0 c1 c2 c3) j"
    using flags
    by (simp add: Evaluate_in_range[OF idx guard reads] coeff3_blend_scale4 u del: scale4.simps)
  ultimately have g: "(?g has_real_derivative
      coeff3 (velocity (projr (Evaluate M fresh v t flags))) j) (at t within S)"
    by simp
  have agree: "?g t' = coeff3 (position (projr (Evaluate M fresh v t' flags))) j"
    if "t' \<in> S" "dist t' t < e" for t'
  proof -
    from S(3)[OF that] have lo: "- (dt v * u) \<le> t' - t" and hi: "t' - t < dt v * (1 - u)"
      by simp_all
    show ?thesis
      using flags
      by (simp add: Evaluate_in_range[OF index_nearby[OF dt idx lo hi] guard reads])
  qed
  show ?thesis
    by (rule has_field_derivative_transform_within[OF g S(2) S(1) agree])
qed

lemma Evaluate_velocity_derivative_within:
  assumes dt: "0 < dt v"
    and idx: "CalculateIndexAndInterpolationAmount v t = (i0, u)"
    and guard: "4 \<le> NumKnots v" "0 \<le> i0" "i0 \<le> int (NumKnots v) - 4"
    and reads: "ControlPoint v i0 = Inr c0" "ControlPoint v (i0 + 1) = Inr c1"
      "ControlPoint v (i0 + 2) = Inr c2" "ControlPoint v (i0 + 3) = Inr c3"
    and flags: "has_flag flags EvalVelocity" "has_flag flags EvalAcceleration"
    and S: "t \<in> S" "0 < e"
      "\<And>t'. t' \<in> S \<Longrightarrow> dist t' t < e \<Longrightarrow> - (dt v * u) \<le> t' - t \<and> t' - t < dt v * (1 - u)"
  shows "((\<lambda>t'. coeff3 (velocity (projr (Evaluate M fresh v t' flags))) j) has_real_derivative
           coeff3 (acceleration (projr (Evaluate M fresh v t flags))) j) (at t within S)"
proof -
  let ?B = "\<lambda>y. row_times (Vector4 0 1 (2 * y) (3 * y ^ 2)) M"
  let ?B' = "\<lambda>y. row_times (Vector4 0 0 2 (6 * y)) M"
  let ?g = "\<lambda>t'. (1 / dt v) * coeff3 (blend (?B ((t' - t0 v) / dt v - of_int i0)) c0 c1 c2 c3) j"
  have u: "u = (t - t0 v) / dt v - of_int i0"
    by (rule interpolation_amount_bounds[OF idx])
  have "(?g has_real_derivative
      ((1 / dt v) * (1 / dt v)) * coeff3 (blend (?B' ((t - t0 v) / dt v - of_int i0)) c0 c1 c2 c3) j)
      (at t within S)"
    by (rule blend_time_derivative[where B = "?B" and B' = "?B'"]) (rule velocity_row_derivative)
  moreover have "coeff3 (acceleration (projr (Evaluate M fresh v t flags))) j =
      ((1 / dt v) * (1 / dt v)) * coeff3 (blend (?B' ((t - t0 v) / dt v - of_int i0)) c0 c1 c2 c3) j"
    using flags
    by (simp add: Evaluate_in_range[OF idx guard reads] coeff3_blend_scale4 u power2_eq_square
        del: scale4.simps)
  ultimately have g: "(?g has_real_derivative
      coeff3 (acceleration (projr (Evaluate M fresh v t flags))) j) (at t within S)"
    by simp
  have agree: "?g t' = coeff3 (velocity (projr (Evaluate M fresh v t' flags))) j"
    if "t' \<in> S" "dist t' t < e" for t'
  proof -
    from S(3)[OF that] have lo: "- (dt v * u) \<le> t' - t" and hi: "t' - t < dt v * (1 - u)"
      by simp_all
    show ?thesis
      using flags
      by (simp add: Evaluate_in_range[OF index_nearby[OF dt idx lo hi] guard reads]
          coeff3_blend_scale4 del: scale4.simps)
  qed
  show ?thesis
    by (rule has_field_derivative_transform_within[OF g S(2) S(1) agree])
qed

lemma right_neighbourhood:
  assumes "0 < dt v" "CalculateIndexAndInterpolationAmount v t = (i0, u)"
  shows "0 < dt v * (1 - u)"
    and "t' \<in> {t..} \<Longrightarrow> dist t' t < dt v * (1 - u) \<Longrightarrow>
           - (dt v * u) \<le> t' - t \<and> t' - t < dt v * (1 - u)"
proof -
  note u = interpolation_amount_bounds(1,2)[OF assms(2)]
  show "0 < dt v * (1 - u)"
    using assms(1) u by simp
  have "0 \<le> dt v * u"
    using assms(1) u by simp
  then show "t' \<in> {t..} \<Longrightarrow> dist t' t < dt v * (1 - u) \<Longrightarrow>
           - (dt v * u) \<le> t' - t \<and> t' - t < dt v * (1 - u)"
    by (auto simp: dist_real_def)
qed

lemma full_neighbourhood:
  assumes "0 < dt v" "CalculateIndexAndInterpolationAmount v t = (i0, u)" "0 < u"
  shows "0 < dt v * min u (1 - u)"
    and "dist t' t < dt v * min u (1 - u) \<Longrightarrow>
           - (dt v * u) \<le> t' - t \<and> t' - t < dt v * (1 - u)"
proof -
  note u = interpolation_amount_bounds(1,2)[OF assms(2)]
  show "0 < dt v * min u (1 - u)"
    using assms(1,3) u by simp
  assume near: "dist t' t < dt v * min u (1 - u)"
  have "dt v * min u (1 - u) \<le> dt v * u" "dt v * min u (1 - u) \<le> dt v * (1 - u)"
    using assms(1) by (simp_all add: mult_left_mono)
  with near show "- (dt v * u) \<le> t' - t \<and> t' - t < dt v * (1 - u)"
    by (auto simp: dist_real_def abs_if split: if_splits)
qed

text \<open>Facts about the example data.\<close>

lemma six_knots_late: "CalculateIndexAndInterpolationAmount six_knots (9 / 2) = (4, 1 / 2)"
  by (simp add: six_knots_def CalculateIndexAndInterpolationAmount_def t0_def dt_def)

lemma six_knots_inside: "CalculateIndexAndInterpolationAmount six_knots (5 / 2) = (2, 1 / 2)"
  by (simp add: six_knots_def CalculateIndexAndInterpolationAmount_def t0_def dt_def)

lemma six_knots_stored: "knots_stored six_knots" "NumKnots six_knots = 6" "dt six_knots = 1"
  by (simp_all add: six_knots_def knots_stored_def NumKnots_def dt_def)

lemma six_knots_window:
  "ControlPoint six_knots 2 = Inr (Vector3 2 1 0)" "ControlPoint six_knots (2 + 1) = Inr (Vector3 3 1 1)"
  "ControlPoint six_knots (2 + 2) = Inr (Vector3 4 0 1)" "ControlPoint six_knots (2 + 3) = Inr (Vector3 5 0 0)"
  by (simp_all add: six_knots_def ControlPoint_def size_t_of_int_def)

lemma flag_bits:
  "has_flag EvalPosition EvalPosition" "\<not> has_flag EvalPosition EvalVelocity"
  "\<not> has_flag EvalPosition EvalAcceleration" "\<not> has_flag EvalPosition EvalOrientation"
  "\<not> has_flag EvalPosition EvalAngularVelocity"
  "has_flag 7 EvalPosition" "has_flag 7 EvalVelocity" "has_flag 7 EvalAcceleration"
  "\<not> has_flag 7 EvalOrientation" "\<not> has_flag 7 EvalAngularVelocity"
  by (simp_all add: has_flag_def EvalPosition_def EvalVelocity_def EvalAcceleration_def
      EvalOrientation_def EvalAngularVelocity_def)

lemma six_knots_origin: "CalculateIndexAndInterpolationAmount six_knots 0 = (0, 0)"
  by (simp add: six_knots_def CalculateIndexAndInterpolationAmount_def t0_def dt_def)

lemma no_knots_index:
  "CalculateIndexAndInterpolationAmount no_knots (- (1 / 2)) = (- 1, 1 / 2)"
  "CalculateIndexAndInterpolationAmount no_knots 0 = (0, 0)"
  by (simp_all add: no_knots_def CalculateIndexAndInterpolationAmount_def t0_def dt_def)

lemma upto_examples:
  "[0..3] = [0, 1, 2, 3]" "[0..5] = [0, 1, 2, 3, 4, 5]" "[- 1..3] = [- 1, 0, 1, 2, 3]"
  by (simp_all add: upto.simps)

lemma six_knots_eval:
  "Evaluate cubic_basis fresh_result six_knots (5 / 2) 7 =
     Inr \<lparr>position = Vector3 (7 / 2) (1 / 2) (23 / 24), velocity = Vector3 1 (- 3 / 4) 0,
          acceleration = Vector3 0 0 (- 1), orientation = Quaternion 0 0 0 1,
          angular_velocity = Vector3 5 5 5\<rparr>"
  unfolding Evaluate_in_range[OF six_knots_inside _ _ _ six_knots_window, unfolded six_knots_stored,
      simplified]
  using flag_bits
  by (simp add: six_knots_stored blend_def cubic_basis_def setZero_def fresh_result_def
      power2_eq_square power3_eq_cube)

lemma half_spaced_inside:
  "CalculateIndexAndInterpolationAmount half_spaced_knots (9 / 4) = (2, 1 / 2)"
  by (simp add: half_spaced_knots_def CalculateIndexAndInterpolationAmount_def t0_def dt_def)

lemma half_spaced_facts: "NumKnots half_spaced_knots = 6" "dt half_spaced_knots = 1 / 2"
  by (simp_all add: half_spaced_knots_def NumKnots_def dt_def)

lemma half_spaced_window:
  "ControlPoint half_spaced_knots 2 = Inr (Vector3 2 1 0)"
  "ControlPoint half_spaced_knots (2 + 1) = Inr (Vector3 3 1 1)"
  "ControlPoint half_spaced_knots (2 + 2) = Inr (Vector3 4 0 1)"
  "ControlPoint half_spaced_knots (2 + 3) = Inr (Vector3 5 0 0)"
  by (simp_all add: half_spaced_knots_def six_knots_def ControlPoint_def size_t_of_int_def)

section \<open>The range check of Evaluate\<close>

text \<open>
  C1. For a query time \<open>t\<close> with resolved index \<open>i0\<close>, \<open>Evaluate\<close> fails with the range
  error exactly when the knot count \<open>n\<close> is below 4, or \<open>i0 < 0\<close>, or \<open>i0 > n - 4\<close>. In
  that case no result is returned at all (nothing is clamped or extrapolated). When
  \<open>n \<ge> 4\<close> and \<open>0 \<le> i0 \<le> n - 4\<close>, and the \<open>n\<close> knots are stored, it returns a result.
\<close>

theorem Evaluate_range_error_iff:
  assumes "CalculateIndexAndInterpolationAmount v t = (i0, u)"
  shows "((Evaluate M fresh v t flags = Inl range_error) =
            (NumKnots v < 4 \<or> i0 < 0 \<or> int (NumKnots v) - 4 < i0)) \<and>
         (NumKnots v < 4 \<or> i0 < 0 \<or> int (NumKnots v) - 4 < i0 \<longrightarrow>
            (\<forall>r. Evaluate M fresh v t flags \<noteq> Inr r)) \<and>
         (knots_stored v \<and> 4 \<le> NumKnots v \<and> 0 \<le> i0 \<and> i0 \<le> int (NumKnots v) - 4 \<longrightarrow>
            (\<exists>r. Evaluate M fresh v t flags = Inr r))"
proof (cases "NumKnots v < 4 \<or> i0 < 0 \<or> int (NumKnots v) - 4 < i0")
  case True
  then show ?thesis
    using Evaluate_out_of_range[OF assms, of M fresh flags] by auto
next
  case False
  then have in_range: "4 \<le> NumKnots v" "0 \<le> i0" "i0 \<le> int (NumKnots v) - 4"
    by auto
  have no_error: "Evaluate M fresh v t flags \<noteq> Inl range_error"
    by (rule Evaluate_not_range_error[OF assms in_range])
  have "\<exists>r. Evaluate M fresh v t flags = Inr r" if "knots_stored v"
  proof -
    from knots_stored_window[OF that in_range] obtain c0 c1 c2 c3 where
      "ControlPoint v i0 = Inr c0" "ControlPoint v (i0 + 1) = Inr c1"
      "ControlPoint v (i0 + 2) = Inr c2" "ControlPoint v (i0 + 3) = Inr c3"
      by blast
    from Evaluate_in_range[OF assms in_range this] show ?thesis by blast
  qed
  with False no_error show ?thesis by blast
qed

theorem Evaluate_range_error_iff_witness:
  "Evaluate cubic_basis fresh_result six_knots (9 / 2) EvalPosition = Inl range_error \<and>
   (\<exists>r. Evaluate cubic_basis fresh_result six_knots (5 / 2) EvalPosition = Inr r)"
  using Evaluate_range_error_iff[OF six_knots_late, of cubic_basis fresh_result EvalPosition]
    Evaluate_range_error_iff[OF six_knots_inside, of cubic_basis fresh_result EvalPosition]
    six_knots_stored
  by simp

section \<open>The weights of Evaluate\<close>

text \<open>
  C3. For a valid query with interpolation amount \<open>u\<close> and the control points
  \<open>c0, c1, c2, c3\<close> at the knots \<open>i0, ..., i0 + 3\<close>, \<open>Evaluate\<close> returns a result whose
  requested position is the weighted sum, from a zero accumulator, of the four control
  points with the weights \<open>[1, u, u^2, u^3] * M\<close>, coordinate by coordinate the sum of
  weight times control point; whose requested velocity is that sum with the weights
  \<open>[(1/dt) * 0, (1/dt) * 1, (1/dt) * 2u, (1/dt) * 3u^2] * M\<close>; and whose requested
  acceleration is that sum with the weights
  \<open>[(1/dt)^2 * 0, (1/dt)^2 * 0, (1/dt)^2 * 2, (1/dt)^2 * 6u] * M\<close>. The rows are written
  out coefficient by coefficient, and \<open>row_times\<close> is the product of a row vector and
  the matrix.
\<close>

theorem Evaluate_weighted_sums:
  assumes "CalculateIndexAndInterpolationAmount v t = (i0, u)"
    and "4 \<le> NumKnots v" "0 \<le> i0" "i0 \<le> int (NumKnots v) - 4"
    and "ControlPoint v i0 = Inr c0" "ControlPoint v (i0 + 1) = Inr c1"
      "ControlPoint v (i0 + 2) = Inr c2" "ControlPoint v (i0 + 3) = Inr c3"
  shows "\<exists>r. Evaluate M fresh v t flags = Inr r \<and>
    (has_flag flags EvalPosition \<longrightarrow>
       position r = blend (row_times (Vector4 1 u (u ^ 2) (u ^ 3)) M) c0 c1 c2 c3 \<and>
       (\<forall>j. coeff3 (position r) j =
          coeff (row_times (Vector4 1 u (u ^ 2) (u ^ 3)) M) 0 * coeff3 c0 j +
          coeff (row_times (Vector4 1 u (u ^ 2) (u ^ 3)) M) 1 * coeff3 c1 j +
          coeff (row_times (Vector4 1 u (u ^ 2) (u ^ 3)) M) 2 * coeff3 c2 j +
          coeff (row_times (Vector4 1 u (u ^ 2) (u ^ 3)) M) 3 * coeff3 c3 j)) \<and>
    (has_flag flags EvalVelocity \<longrightarrow>
       velocity r =
         blend (row_times (Vector4 ((1 / dt v) * 0) ((1 / dt v) * 1) ((1 / dt v) * (2 * u))
                  ((1 / dt v) * (3 * u ^ 2))) M) c0 c1 c2 c3) \<and>
    (has_flag flags EvalAcceleration \<longrightarrow>
       acceleration r =
         blend (row_times (Vector4 ((1 / dt v) ^ 2 * 0) ((1 / dt v) ^ 2 * 0) ((1 / dt v) ^ 2 * 2)
                  ((1 / dt v) ^ 2 * (6 * u))) M) c0 c1 c2 c3)"
  by (simp add: Evaluate_in_range[OF assms] coeff3_blend)

theorem Evaluate_weighted_sums_witness:
  "\<exists>r. Evaluate cubic_basis fresh_result half_spaced_knots (9 / 4) 7 = Inr r \<and>
     position r = Vector3 (7 / 2) (1 / 2) (23 / 24) \<and>
     velocity r = Vector3 2 (- 3 / 2) 0 \<and>
     acceleration r = Vector3 0 0 (- 4)"
  using Evaluate_weighted_sums[OF half_spaced_inside _ _ _ half_spaced_window,
      of cubic_basis fresh_result 7] flag_bits
  by (auto simp: half_spaced_facts blend_def cubic_basis_def setZero_def
      power2_eq_square power3_eq_cube)

section \<open>The fields Evaluate writes\<close>

text \<open>
  C7. For a valid query, \<open>Evaluate\<close> with the flags \<open>EvalPosition\<close> alone returns a
  result, and its velocity, acceleration, orientation and angular velocity are those
  of the fresh result. For any flags, a field whose flag is not set in the bitmask is,
  in every result \<open>Evaluate\<close> returns, the field of the fresh result.
\<close>

theorem Evaluate_position_only:
  assumes "knots_stored v" "CalculateIndexAndInterpolationAmount v t = (i0, u)"
    and "4 \<le> NumKnots v" "0 \<le> i0" "i0 \<le> int (NumKnots v) - 4"
  shows "(\<exists>r. Evaluate M fresh v t EvalPosition = Inr r \<and>
            velocity r = velocity fresh \<and> acceleration r = acceleration fresh \<and>
            orientation r = orientation fresh \<and> angular_velocity r = angular_velocity fresh) \<and>
         (\<forall>flags r. Evaluate M fresh v t flags = Inr r \<longrightarrow>
            (\<not> has_flag flags EvalPosition \<longrightarrow> position r = position fresh) \<and>
            (\<not> has_flag flags EvalVelocity \<longrightarrow> velocity r = velocity fresh) \<and>
            (\<not> has_flag flags EvalAcceleration \<longrightarrow> acceleration r = acceleration fresh) \<and>
            (\<not> has_flag flags EvalOrientation \<longrightarrow> orientation r = orientation fresh) \<and>
            (\<not> has_flag flags EvalAngularVelocity \<longrightarrow>
               angular_velocity r = angular_velocity fresh))"
proof -
  from knots_stored_window[OF assms(1) assms(3-5)] obtain c0 c1 c2 c3 where
    reads: "ControlPoint v i0 = Inr c0" "ControlPoint v (i0 + 1) = Inr c1"
    "ControlPoint v (i0 + 2) = Inr c2" "ControlPoint v (i0 + 3) = Inr c3"
    by blast
  have "\<exists>r. Evaluate M fresh v t EvalPosition = Inr r"
    using Evaluate_in_range[OF assms(2-5) reads] by blast
  then obtain r where r: "Evaluate M fresh v t EvalPosition = Inr r" ..
  from Evaluate_frame[OF r] flag_bits(2-5)
  have "velocity r = velocity fresh \<and> acceleration r = acceleration fresh \<and>
      orientation r = orientation fresh \<and> angular_velocity r = angular_velocity fresh"
    by simp
  with r show ?thesis
    using Evaluate_frame by blast
qed

theorem Evaluate_position_only_witness:
  "\<exists>r. Evaluate cubic_basis fresh_result six_knots (5 / 2) EvalPosition = Inr r \<and>
     velocity r = Vector3 8 8 8 \<and> acceleration r = Vector3 9 9 9 \<and>
     orientation r = Quaternion 0 0 0 1 \<and> angular_velocity r = Vector3 5 5 5"
  using Evaluate_position_only[OF six_knots_stored(1) six_knots_inside, of cubic_basis fresh_result]
  by (simp add: six_knots_stored fresh_result_def)

section \<open>Velocity and acceleration as derivatives\<close>

text \<open>
  C5. For any basis matrix \<open>M\<close>, every weight of the position row \<open>[1, u, u^2, u^3] * M\<close>
  has, at every \<open>u\<close>, the derivative given by the row \<open>[0, 1, 2u, 3u^2] * M\<close>, and the
  velocity weight row of \<open>Evaluate\<close> is \<open>1/dt\<close> times that row; every weight of the row
  \<open>[0, 1, 2u, 3u^2] * M\<close> has the derivative given by \<open>[0, 0, 2, 6u] * M\<close>, and the
  acceleration weight row is \<open>(1/dt)^2\<close> times that row. For a valid query at \<open>t\<close> on a
  trajectory with \<open>dt > 0\<close> and fixed control points, each coordinate of the velocity
  that \<open>Evaluate\<close> returns is the derivative at \<open>t\<close>, with respect to the query time, of
  that coordinate of the position \<open>Evaluate\<close> returns, and each coordinate of the
  acceleration is the derivative of that coordinate of the velocity: from the right
  for every \<open>u\<close> in \<open>[0, 1)\<close>, and from both sides when \<open>u > 0\<close>.
\<close>

theorem Evaluate_derivatives:
  "(\<forall>k x.
      ((\<lambda>y. coeff (row_times (Vector4 1 y (y ^ 2) (y ^ 3)) M) k) has_real_derivative
         coeff (row_times (Vector4 0 1 (2 * x) (3 * x ^ 2)) M) k) (at x) \<and>
      coeff (row_times (scale4 (1 / dt v) (Vector4 0 1 (2 * x) (3 * x ^ 2))) M) k =
        (1 / dt v) * coeff (row_times (Vector4 0 1 (2 * x) (3 * x ^ 2)) M) k \<and>
      ((\<lambda>y. coeff (row_times (Vector4 0 1 (2 * y) (3 * y ^ 2)) M) k) has_real_derivative
         coeff (row_times (Vector4 0 0 2 (6 * x)) M) k) (at x) \<and>
      coeff (row_times (scale4 ((1 / dt v) ^ 2) (Vector4 0 0 2 (6 * x))) M) k =
        (1 / dt v) ^ 2 * coeff (row_times (Vector4 0 0 2 (6 * x)) M) k) \<and>
   (knots_stored v \<and> 0 < dt v \<and> CalculateIndexAndInterpolationAmount v t = (i0, u) \<and>
    4 \<le> NumKnots v \<and> 0 \<le> i0 \<and> i0 \<le> int (NumKnots v) - 4 \<and> has_flag flags EvalVelocity \<longrightarrow>
      (\<exists>r. Evaluate M fresh v t flags = Inr r \<and>
        (\<forall>j.
           (has_flag flags EvalPosition \<longrightarrow>
              ((\<lambda>t'. coeff3 (position (projr (Evaluate M fresh v t' flags))) j)
                 has_real_derivative coeff3 (velocity r) j) (at t within {t..})) \<and>
           (has_flag flags EvalAcceleration \<longrightarrow>
              ((\<lambda>t'. coeff3 (velocity (projr (Evaluate M fresh v t' flags))) j)
                 has_real_derivative coeff3 (acceleration r) j) (at t within {t..})) \<and>
           (has_flag flags EvalPosition \<and> 0 < u \<longrightarrow>
              ((\<lambda>t'. coeff3 (position (projr (Evaluate M fresh v t' flags))) j)
                 has_real_derivative coeff3 (velocity r) j) (at t)) \<and>
           (has_flag flags EvalAcceleration \<and> 0 < u \<longrightarrow>
              ((\<lambda>t'. coeff3 (velocity (projr (Evaluate M fresh v t' flags))) j)
                 has_real_derivative coeff3 (acceleration r) j) (at t)))))"
proof (intro conjI allI impI)
  fix k x
  show "((\<lambda>y. coeff (row_times (Vector4 1 y (y ^ 2) (y ^ 3)) M) k) has_real_derivative
         coeff (row_times (Vector4 0 1 (2 * x) (3 * x ^ 2)) M) k) (at x)"
    by (rule position_row_derivative)
  show "coeff (row_times (scale4 (1 / dt v) (Vector4 0 1 (2 * x) (3 * x ^ 2))) M) k =
        (1 / dt v) * coeff (row_times (Vector4 0 1 (2 * x) (3 * x ^ 2)) M) k"
    by (rule coeff_row_times_scale4)
  show "((\<lambda>y. coeff (row_times (Vector4 0 1 (2 * y) (3 * y ^ 2)) M) k) has_real_derivative
         coeff (row_times (Vector4 0 0 2 (6 * x)) M) k) (at x)"
    by (rule velocity_row_derivative)
  show "coeff (row_times (scale4 ((1 / dt v) ^ 2) (Vector4 0 0 2 (6 * x))) M) k =
        (1 / dt v) ^ 2 * coeff (row_times (Vector4 0 0 2 (6 * x)) M) k"
    by (rule coeff_row_times_scale4)
next
  assume valid: "knots_stored v \<and> 0 < dt v \<and> CalculateIndexAndInterpolationAmount v t = (i0, u) \<and>
    4 \<le> NumKnots v \<and> 0 \<le> i0 \<and> i0 \<le> int (NumKnots v) - 4 \<and> has_flag flags EvalVelocity"
  then have stored: "knots_stored v" and dt: "0 < dt v"
    and idx: "CalculateIndexAndInterpolationAmount v t = (i0, u)"
    and guard: "4 \<le> NumKnots v" "0 \<le> i0" "i0 \<le> int (NumKnots v) - 4"
    and vel: "has_flag flags EvalVelocity"
    by simp_all
  from knots_stored_window[OF stored guard] obtain c0 c1 c2 c3 where
    reads: "ControlPoint v i0 = Inr c0" "ControlPoint v (i0 + 1) = Inr c1"
    "ControlPoint v (i0 + 2) = Inr c2" "ControlPoint v (i0 + 3) = Inr c3"
    by blast
  from Evaluate_in_range[OF idx guard reads, of M fresh flags]
  obtain r where r: "Evaluate M fresh v t flags = Inr r"
    by blast
  then have at_t: "projr (Evaluate M fresh v t flags) = r"
    by simp
  note right = right_neighbourhood[OF dt idx]
  have "((\<lambda>t'. coeff3 (position (projr (Evaluate M fresh v t' flags))) j)
           has_real_derivative coeff3 (velocity r) j) (at t within {t..})"
    if "has_flag flags EvalPosition" for j
    using Evaluate_position_derivative_within[where S = "{t..}" and M = M and fresh = fresh
        and j = j, OF dt idx guard reads that vel _ right]
    by (simp add: at_t)
  moreover have "((\<lambda>t'. coeff3 (velocity (projr (Evaluate M fresh v t' flags))) j)
           has_real_derivative coeff3 (acceleration r) j) (at t within {t..})"
    if "has_flag flags EvalAcceleration" for j
    using Evaluate_velocity_derivative_within[where S = "{t..}" and M = M and fresh = fresh
        and j = j, OF dt idx guard reads vel that _ right]
    by (simp add: at_t)
  moreover have "((\<lambda>t'. coeff3 (position (projr (Evaluate M fresh v t' flags))) j)
           has_real_derivative coeff3 (velocity r) j) (at t)"
    if "has_flag flags EvalPosition" "0 < u" for j
    using Evaluate_position_derivative_within[where S = UNIV and M = M and fresh = fresh
        and j = j, OF dt idx guard reads that(1) vel _ full_neighbourhood[OF dt idx that(2)]]
    by (simp add: at_t)
  moreover have "((\<lambda>t'. coeff3 (velocity (projr (Evaluate M fresh v t' flags))) j)
           has_real_derivative coeff3 (acceleration r) j) (at t)"
    if "has_flag flags EvalAcceleration" "0 < u" for j
    using Evaluate_velocity_derivative_within[where S = UNIV and M = M and fresh = fresh
        and j = j, OF dt idx guard reads vel that(1) _ full_neighbourhood[OF dt idx that(2)]]
    by (simp add: at_t)
  ultimately show "\<exists>r. Evaluate M fresh v t flags = Inr r \<and>
        (\<forall>j.
           (has_flag flags EvalPosition \<longrightarrow>
              ((\<lambda>t'. coeff3 (position (projr (Evaluate M fresh v t' flags))) j)
                 has_real_derivative coeff3 (velocity r) j) (at t within {t..})) \<and>
           (has_flag flags EvalAcceleration \<longrightarrow>
              ((\<lambda>t'. coeff3 (velocity (projr (Evaluate M fresh v t' flags))) j)
                 has_real_derivative coeff3 (acceleration r) j) (at t within {t..})) \<and>
           (has_flag flags EvalPosition \<and> 0 < u \<longrightarrow>
              ((\<lambda>t'. coeff3 (position (projr (Evaluate M fresh v t' flags))) j)
                 has_real_derivative coeff3 (velocity r) j) (at t)) \<and>
           (has_flag flags EvalAcceleration \<and> 0 < u \<longrightarrow>
              ((\<lambda>t'. coeff3 (velocity (projr (Evaluate M fresh v t' flags))) j)
                 has_real_derivative coeff3 (acceleration r) j) (at t)))"
    using r by blast
qed

theorem Evaluate_derivatives_witness:
  "((\<lambda>t'. coeff3 (position (projr (Evaluate cubic_basis fresh_result six_knots t' 7))) 1)
      has_real_derivative - 3 / 4) (at (5 / 2)) \<and>
   ((\<lambda>t'. coeff3 (velocity (projr (Evaluate cubic_basis fresh_result six_knots t' 7))) 2)
      has_real_derivative - 1) (at (5 / 2))"
proof -
  have valid: "knots_stored six_knots \<and> 0 < dt six_knots \<and>
      CalculateIndexAndInterpolationAmount six_knots (5 / 2) = (2, 1 / 2) \<and>
      4 \<le> NumKnots six_knots \<and> (0::int) \<le> 2 \<and> 2 \<le> int (NumKnots six_knots) - 4 \<and>
      has_flag 7 EvalVelocity"
    by (simp add: six_knots_stored six_knots_inside flag_bits)
  from Evaluate_derivatives[of cubic_basis six_knots "5 / 2" 2 "1 / 2" 7 fresh_result,
      THEN conjunct2, rule_format, OF valid]
  obtain r where r: "Evaluate cubic_basis fresh_result six_knots (5 / 2) 7 = Inr r"
    and d: "\<And>j. (has_flag 7 EvalPosition \<and> (0::real) < 1 / 2 \<longrightarrow>
              ((\<lambda>t'. coeff3 (position (projr (Evaluate cubic_basis fresh_result six_knots t' 7))) j)
                 has_real_derivative coeff3 (velocity r) j) (at (5 / 2))) \<and>
           (has_flag 7 EvalAcceleration \<and> (0::real) < 1 / 2 \<longrightarrow>
              ((\<lambda>t'. coeff3 (velocity (projr (Evaluate cubic_basis fresh_result six_knots t' 7))) j)
                 has_real_derivative coeff3 (acceleration r) j) (at (5 / 2)))"
    by blast
  from r have "velocity r = Vector3 1 (- 3 / 4) 0" "acceleration r = Vector3 0 0 (- 1)"
    by (auto simp: six_knots_eval)
  with d[of 1] d[of 2] flag_bits show ?thesis
    by simp
qed

section \<open>Appending a knot\<close>

text \<open>
  C6. \<open>AppendKnot\<close> with a point always returns: the count of the new trajectory is
  \<open>n + 1\<close>, \<open>dt\<close> and \<open>t0\<close> are unchanged, the storage is the old storage with the point
  as one more block at its end, and every control point of the old storage reads as
  before. When \<open>n\<close> was the number of stored control points, \<open>ControlPoint(n' - 1)\<close>
  for the new count \<open>n'\<close> reads the appended point; and when the knots of the old
  trajectory were stored, so are those of the new one.
\<close>

theorem AppendKnot_appends:
  "\<exists>s'. AppendKnot s cp = Inr s' \<and>
     meta_n (meta s') = meta_n (meta s) + 1 \<and>
     meta_dt (meta s') = meta_dt (meta s) \<and> meta_t0 (meta s') = meta_t0 (meta s) \<and>
     holder s' = holder s @ [Some cp] \<and>
     (\<forall>i < length (holder s). Trajectory_ControlPoint s' i = Trajectory_ControlPoint s i) \<and>
     (meta_n (meta s) = length (holder s) \<longrightarrow>
        Trajectory_ControlPoint s' (meta_n (meta s') - 1) = Inr cp) \<and>
     (knots_stored s \<longrightarrow> knots_stored s')"
proof -
  let ?s' = "s\<lparr>holder := holder s @ [Some cp], meta := (meta s)\<lparr>meta_n := meta_n (meta s) + 1\<rparr>\<rparr>"
  have "Trajectory_ControlPoint ?s' (meta_n (meta ?s') - 1) = Inr cp"
    if "meta_n (meta s) = length (holder s)"
    by (rule Trajectory_ControlPoint_nth) (simp_all add: that)
  moreover have "\<forall>i < length (holder s). Trajectory_ControlPoint ?s' i = Trajectory_ControlPoint s i"
    by (simp add: Trajectory_ControlPoint_def MutableControlPoint_def size_t_of_int_def nth_append)
  moreover have "knots_stored ?s'" if "knots_stored s"
    using that by (simp add: knots_stored_def)
  ultimately show ?thesis
    by (simp add: AppendKnot_result)
qed

theorem AppendKnot_appends_witness:
  "\<exists>s'. AppendKnot six_knots (Vector3 6 1 2) = Inr s' \<and> meta_n (meta s') = 7 \<and>
     Trajectory_ControlPoint s' 6 = Inr (Vector3 6 1 2) \<and>
     Trajectory_ControlPoint s' 5 = Inr (Vector3 5 0 0) \<and>
     meta_dt (meta s') = 1 \<and> meta_t0 (meta s') = 0 \<and> knots_stored s'"
proof -
  from AppendKnot_appends[of six_knots "Vector3 6 1 2"] obtain s' where
    s': "AppendKnot six_knots (Vector3 6 1 2) = Inr s'"
      "meta_n (meta s') = meta_n (meta six_knots) + 1"
      "meta_dt (meta s') = meta_dt (meta six_knots)" "meta_t0 (meta s') = meta_t0 (meta six_knots)"
      "\<forall>i < length (holder six_knots). Trajectory_ControlPoint s' i = Trajectory_ControlPoint six_knots i"
      "meta_n (meta six_knots) = length (holder six_knots) \<longrightarrow>
         Trajectory_ControlPoint s' (meta_n (meta s') - 1) = Inr (Vector3 6 1 2)"
      "knots_stored six_knots \<longrightarrow> knots_stored s'"
    by blast
  have "Trajectory_ControlPoint six_knots 5 = Inr (Vector3 5 0 0)"
    by (simp add: Trajectory_ControlPoint_def MutableControlPoint_def size_t_of_int_def six_knots_def)
  with s' six_knots_stored(1) show ?thesis
    by (auto simp: six_knots_def)
qed

section \<open>Registration of one interval\<close>

text \<open>
  C4. For a single interval \<open>(t1, t2)\<close> with resolved indices \<open>i1\<close> and \<open>i2\<close>,
  \<open>AddToProblem\<close> appends to the problem, to \<open>parameter_blocks\<close> and to
  \<open>parameter_sizes\<close> one entry for each knot of \<open>[i1, i2 + 3]\<close>, in increasing order of
  the index: the block's pointer, with the size 3. The output metadata gets \<open>dt\<close>,
  \<open>t0 + i1 * dt\<close> and the value \<open>i2 + 4 - i1 + 1\<close> converted to the count's type, which
  is that number whenever it is not negative (as for \<open>dt > 0\<close> and \<open>t1 \<le> t2\<close>, where
  \<open>i1 \<le> i2\<close> by \<open>index_mono\<close>). For \<open>i1 \<ge> 0\<close> the pointers are those of the blocks
  \<open>i1, ..., i2 + 3\<close> themselves.
\<close>

theorem AddToProblem_exposes_window:
  assumes "CalculateIndexAndInterpolationAmount s t1 = (i1, u1)"
    and "CalculateIndexAndInterpolationAmount s t2 = (i2, u2)"
  shows "\<exists>meta'.
     AddToProblem s problem [(t1, t2)] meta_out parameter_blocks parameter_sizes =
       Inr (problem @ map (\<lambda>j. (Parameter (size_t_of_int j), 3)) [i1..i2 + 3],
            meta',
            parameter_blocks @ map (\<lambda>j. Parameter (size_t_of_int j)) [i1..i2 + 3],
            parameter_sizes @ map (\<lambda>j. 3) [i1..i2 + 3]) \<and>
     meta_dt meta' = dt s \<and>
     meta_t0 meta' = t0 s + of_int i1 * dt s \<and>
     meta_n meta' = size_t_of_int (i2 + 4 - i1 + 1) \<and>
     (0 \<le> i2 + 4 - i1 + 1 \<longrightarrow> int (meta_n meta') = i2 + 4 - i1 + 1) \<and>
     (0 \<le> i1 \<longrightarrow> map (\<lambda>j. Parameter (size_t_of_int j)) [i1..i2 + 3] =
                     map (\<lambda>j. Parameter (nat j)) [i1..i2 + 3])"
  by (simp add: AddToProblem_single[OF assms] size_t_of_int_def)

theorem AddToProblem_exposes_window_witness:
  "\<exists>meta'. AddToProblem six_knots [] [(0, 5 / 2)] empty_meta [] [] =
       Inr ([(Parameter 0, 3), (Parameter 1, 3), (Parameter 2, 3), (Parameter 3, 3),
             (Parameter 4, 3), (Parameter 5, 3)],
            meta',
            [Parameter 0, Parameter 1, Parameter 2, Parameter 3, Parameter 4, Parameter 5],
            [3, 3, 3, 3, 3, 3]) \<and>
     meta_dt meta' = 1 \<and> meta_t0 meta' = 0 \<and> meta_n meta' = 7"
proof -
  have "dt six_knots = 1" "t0 six_knots = 0"
    by (simp_all add: six_knots_def dt_def t0_def)
  with AddToProblem_exposes_window[OF six_knots_origin six_knots_inside, of "[]" empty_meta "[]" "[]"]
  show ?thesis
    by (auto simp: size_t_of_int_def upto_examples)
qed

text \<open>
  C2. The count \<open>n\<close> that \<open>AddToProblem\<close> writes to the output metadata is not the
  number of exposed blocks: for the interval \<open>(0, 0)\<close> on the six-knot example the loop
  exposes the four blocks 0 to 3 and the metadata says \<open>n = 5\<close>.
\<close>

theorem AddToProblem_count_off_by_one:
  "AddToProblem six_knots [] [(0, 0)] empty_meta [] [] =
     Inr ([(Parameter 0, 3), (Parameter 1, 3), (Parameter 2, 3), (Parameter 3, 3)],
          \<lparr>meta_dt = 1, meta_t0 = 0, meta_n = 5\<rparr>,
          [Parameter 0, Parameter 1, Parameter 2, Parameter 3],
          [3, 3, 3, 3])"
  unfolding AddToProblem_single[OF six_knots_origin six_knots_origin]
  by (simp add: size_t_of_int_def empty_meta_def six_knots_def dt_def t0_def upto_examples)

text \<open>
  What the surplus allows: a view of the four exposed blocks with the metadata of the
  example has \<open>n = 5\<close>, so a query at \<open>t = 3/2\<close> passes the range check of \<open>Evaluate\<close>
  with \<open>i0 = 1 \<le> n - 4\<close>, and its window reaches the block 4, which is not among
  them.
\<close>

lemma exposed_window_overrun:
  "Evaluate cubic_basis fresh_result
     \<lparr>holder = take 4 (holder six_knots), meta = \<lparr>meta_dt = 1, meta_t0 = 0, meta_n = 5\<rparr>\<rparr>
     (3 / 2) EvalPosition = Inl undefined_behaviour"
proof -
  let ?v = "\<lparr>holder = take 4 (holder six_knots), meta = \<lparr>meta_dt = 1, meta_t0 = 0, meta_n = 5\<rparr>\<rparr>"
  have idx: "CalculateIndexAndInterpolationAmount ?v (3 / 2) = (1, 1 / 2)"
    by (simp add: CalculateIndexAndInterpolationAmount_def t0_def dt_def)
  have reads: "ControlPoint ?v 1 = Inr (Vector3 1 0 0)" "ControlPoint ?v 2 = Inr (Vector3 2 1 0)"
    "ControlPoint ?v 3 = Inr (Vector3 3 1 1)" "ControlPoint ?v 4 = Inl undefined_behaviour"
    by (simp_all add: ControlPoint_def size_t_of_int_def six_knots_def)
  have loop: "Evaluate_loop ?v EvalPosition Bp Bv Ba 1 1 r = Inl undefined_behaviour" for Bp Bv Ba r
    apply (subst Evaluate_loop.simps, simp add: reads accumulate_def flag_bits)
    apply (subst Evaluate_loop.simps, simp add: reads accumulate_def flag_bits)
    apply (subst Evaluate_loop.simps, simp add: reads accumulate_def flag_bits)
    apply (subst Evaluate_loop.simps, simp add: reads accumulate_def flag_bits)
    done
  show ?thesis
    by (simp add: Evaluate_def idx NumKnots_def size_t_of_int_def size_t_minus_def loop Let_def
        del: One_nat_def)
qed

text \<open>
  C10. For a single interval \<open>AddToProblem\<close> never fails with the range error: it
  returns, with the pointers of the indices \<open>i1\<close> to \<open>i2 + 3\<close> appended to
  \<open>parameter_blocks\<close>, and its outcome is the same for every storage \<open>h\<close> and every
  knot count \<open>k\<close> of the trajectory, so no index is checked against either.
\<close>

theorem AddToProblem_no_range_check:
  "AddToProblem s problem [(t1, t2)] meta_out parameter_blocks parameter_sizes \<noteq> Inl range_error \<and>
   (\<exists>problem' meta' sizes'.
      AddToProblem s problem [(t1, t2)] meta_out parameter_blocks parameter_sizes =
        Inr (problem', meta',
             parameter_blocks @ map (\<lambda>j. Parameter (size_t_of_int j))
               [fst (CalculateIndexAndInterpolationAmount s t1)..
                fst (CalculateIndexAndInterpolationAmount s t2) + 3],
             sizes')) \<and>
   AddToProblem (s\<lparr>holder := h, meta := (meta s)\<lparr>meta_n := k\<rparr>\<rparr>) problem [(t1, t2)] meta_out
       parameter_blocks parameter_sizes =
     AddToProblem s problem [(t1, t2)] meta_out parameter_blocks parameter_sizes"
proof -
  obtain i1 u1 where idx1: "CalculateIndexAndInterpolationAmount s t1 = (i1, u1)"
    by (cases "CalculateIndexAndInterpolationAmount s t1")
  obtain i2 u2 where idx2: "CalculateIndexAndInterpolationAmount s t2 = (i2, u2)"
    by (cases "CalculateIndexAndInterpolationAmount s t2")
  let ?s = "s\<lparr>holder := h, meta := (meta s)\<lparr>meta_n := k\<rparr>\<rparr>"
  have same: "CalculateIndexAndInterpolationAmount ?s t = CalculateIndexAndInterpolationAmount s t"
    "dt ?s = dt s" "t0 ?s = t0 s" for t
    by (simp_all add: CalculateIndexAndInterpolationAmount_def dt_def t0_def)
  show ?thesis
    using idx1 idx2
    by (simp add: AddToProblem_single[OF idx1 idx2]
        AddToProblem_single[OF idx1[folded same(1)] idx2[folded same(1)]] same)
qed

theorem AddToProblem_no_range_check_witness:
  "NumKnots no_knots = 0 \<and>
   (\<exists>problem' meta' sizes'.
      AddToProblem no_knots [] [(- 1 / 2, 0)] empty_meta [] [] =
        Inr (problem', meta',
             [Parameter 18446744073709551615, Parameter 0, Parameter 1, Parameter 2, Parameter 3],
             sizes'))"
proof -
  have "NumKnots no_knots = 0"
    by (simp add: no_knots_def NumKnots_def)
  with AddToProblem_no_range_check[of no_knots "[]" "- 1 / 2" 0 empty_meta "[]" "[]"]
  show ?thesis
    by (auto simp: no_knots_index size_t_of_int_def upto_examples)
qed

section \<open>Registration of several intervals, or of none\<close>

text \<open>
  C8. Called with a list of more than one time interval, \<open>AddToProblem\<close> fails with the
  length error whose message is "Multi times not implemented yet", whatever the
  trajectory, the problem and the output arguments are; as the error is the whole
  outcome, no parameter block is exposed and no metadata written.
\<close>

theorem AddToProblem_multi_times:
  "1 < length time_list \<Longrightarrow>
   AddToProblem s problem time_list meta_out parameter_blocks parameter_sizes =
     Inl (length_error ''Multi times not implemented yet'')"
  by (simp add: AddToProblem_def)

theorem AddToProblem_multi_times_witness:
  "1 < length [(0::real, 1::real), (2, 3)] \<and>
   AddToProblem six_knots [] [(0, 1), (2, 3)] empty_meta [] [] =
     Inl (length_error ''Multi times not implemented yet'')"
  using AddToProblem_multi_times[of "[(0, 1), (2, 3)]" six_knots "[]" empty_meta "[]" "[]"]
  by simp

text \<open>
  C9. Called with no time interval at all, \<open>AddToProblem\<close> fails with the same length
  error as for several intervals: the guard is \<open>times.size() != 1\<close>.
\<close>

theorem AddToProblem_no_times:
  "AddToProblem s problem [] meta_out parameter_blocks parameter_sizes =
     Inl (length_error ''Multi times not implemented yet'')"
  by (simp add: AddToProblem_def)

end
